theory Spec2Isabelle
  imports Main
begin

section \<open>GameService of vault-games-api: a shallow embedding\<close>

text \<open>
  The service \<^verbatim>\<open>src/games/game.service.ts\<close> is a NestJS class whose methods query two
  Mongoose models (games and users), write to a logger and either return data or throw.
  Here each method is a function from the state of the world before the call to a
  result and the state after it. An exception is the \<open>Inl\<close> branch of the result.
\<close>

subsection \<open>Documents\<close>

text \<open>
  A stored Game document. Ids are kept in their string form (\<^verbatim>\<open>String(doc._id)\<close>),
  dates as milliseconds since the epoch.

  Modelled from the spec: the Game schema (\<^verbatim>\<open>src/games/schemas/game.schemas.ts\<close>) is not
  among the sources. Its fields are those of section 3 of the specification: \<open>nome\<close>,
  \<open>description\<close>, \<open>image\<close> and \<open>userId\<close> are required, \<open>status\<close> is defaulted by the
  store when omitted, \<open>updatedAt\<close> is stamped by the store, \<open>updatedBy\<close> is free-form.
\<close>

record game =
  g_id :: string
  g_nome :: string
  g_description :: string
  g_image :: string
  g_userId :: string
  g_status :: string
  g_updatedAt :: int
  g_updatedBy :: "string option"

text \<open>
  Modelled from the spec: the User schema (\<^verbatim>\<open>src/user/schemas/user.schemas.ts\<close>) is
  not among the sources. The service reads \<open>_id\<close>, \<open>nome\<close> and \<open>picture\<close> only; any other
  field of a user lives in the record's extension.
\<close>

record user =
  u_id :: string
  u_nome :: string
  u_picture :: string

text \<open>
  Modelled from the spec: \<^verbatim>\<open>CreateGameDto\<close> (\<^verbatim>\<open>src/games/dto/create-game.dto.ts\<close>) is
  not among the sources. Every property may be absent (\<open>None\<close>, JavaScript's
  \<^verbatim>\<open>undefined\<close>); \<^verbatim>\<open>update\<close> takes a \<^verbatim>\<open>Partial<CreateGameDto>\<close>, which is the same shape.
\<close>

record create_game_dto =
  d_nome :: "string option"
  d_description :: "string option"
  d_image :: "string option"
  d_userId :: "string option"
  d_status :: "string option"
  d_updatedBy :: "string option"

text \<open>
  A lean (plain object) document that a query with a projection returns: a property
  that the projection leaves out is absent, and reading it yields \<^verbatim>\<open>undefined\<close>.
\<close>

record lean_game =
  l_id :: "string option"
  l_nome :: "string option"
  l_description :: "string option"
  l_image :: "string option"
  l_userId :: "string option"
  l_status :: "string option"
  l_updatedAt :: "int option"
  l_updatedBy :: "string option"

text \<open>The summary \<^verbatim>\<open>{ id, name, picture }\<close> that the two "last updated" queries attach.\<close>

record user_summary =
  s_id :: string
  s_name :: string
  s_picture :: string

text \<open>
  \<^verbatim>\<open>{ ...game, user: user ? { id, name, picture } : 'Unknown' }\<close>: the lean document
  extended by the \<open>user\<close> property that is either the summary or a string.
\<close>

record formatted_game = lean_game +
  fg_user :: "user_summary + string"

subsection \<open>Exceptions, log lines, the world\<close>

text \<open>A JavaScript \<^verbatim>\<open>Error\<close> as the catch block reads it: \<open>message\<close> and \<open>stack\<close>.\<close>

record js_error =
  message :: string
  stack :: string

datatype exn =
    NotFoundException string
  | BadRequestException string
  | TypeError string
  | StoreFailure js_error

datatype log_entry =
    Log string
  | Warn string
  | LogError string "string option"

text \<open>
  The world a call runs in: the two collections, the lines logged so far, the clock that
  \<^verbatim>\<open>new Date()\<close> reads, and the driver. The driver is outside the repository, so its
  failures are inputs: when \<open>game_fault\<close> (\<open>user_fault\<close>) holds an error, every query on
  the game (user) model rejects with it (a lost connection, a cast or validation error).
  \<open>gen_oid\<close> and \<open>oid_counter\<close> stand for the driver's ObjectId generator, and
  \<open>default_status\<close> for the default the Game schema gives \<open>status\<close>.
\<close>

record world =
  games :: "game list"
  users :: "user list"
  logs :: "log_entry list"
  now :: int
  game_fault :: "js_error option"
  user_fault :: "js_error option"
  oid_counter :: nat
  gen_oid :: "nat \<Rightarrow> string"
  default_status :: string

definition logger :: "log_entry \<Rightarrow> world \<Rightarrow> world" where
  "logger e w = w\<lparr>logs := logs w @ [e]\<rparr>"

subsection \<open>JavaScript primitives the service relies on\<close>

text \<open>Truthiness of an optional string: \<^verbatim>\<open>undefined\<close> and \<^verbatim>\<open>''\<close> are falsy.\<close>

definition truthy :: "string option \<Rightarrow> bool" where
  "truthy v = (case v of None \<Rightarrow> False | Some s \<Rightarrow> s \<noteq> [])"

text \<open>\<^verbatim>\<open>String(v)\<close> of an optional string.\<close>

definition String_js :: "string option \<Rightarrow> string" where
  "String_js v = (case v of None \<Rightarrow> ''undefined'' | Some s \<Rightarrow> s)"

text \<open>A number inside a template literal: its decimal digits.\<close>

definition digit_char :: "nat \<Rightarrow> char" where
  "digit_char d = ''0123456789'' ! d"

fun show_nat :: "nat \<Rightarrow> string" where
  "show_nat n = (if n < 10 then [digit_char n] else show_nat (n div 10) @ [digit_char (n mod 10)])"

text \<open>\<^verbatim>\<open>dto[field]\<close>: a property read by name.\<close>

definition dto_get :: "create_game_dto \<Rightarrow> string \<Rightarrow> string option" where
  "dto_get dto field =
    (if field = ''nome'' then d_nome dto
     else if field = ''description'' then d_description dto
     else if field = ''image'' then d_image dto
     else if field = ''userId'' then d_userId dto
     else if field = ''status'' then d_status dto
     else if field = ''updatedBy'' then d_updatedBy dto
     else None)"

subsection \<open>The Mongoose model: the queries the service issues\<close>

text \<open>A filter object \<^verbatim>\<open>{ userId?, status? }\<close>: a property that is set must match exactly.\<close>

record game_filter =
  f_userId :: "string option"
  f_status :: "string option"

definition matches :: "game_filter \<Rightarrow> game \<Rightarrow> bool" where
  "matches f g =
    ((case f_userId f of None \<Rightarrow> True | Some u \<Rightarrow> g_userId g = u) \<and>
     (case f_status f of None \<Rightarrow> True | Some s \<Rightarrow> g_status g = s))"

text \<open>\<^verbatim>\<open>gameModel.find(filter).exec()\<close>\<close>

definition game_find :: "game_filter \<Rightarrow> world \<Rightarrow> js_error + game list" where
  "game_find f w =
    (case game_fault w of
       Some e \<Rightarrow> Inl e
     | None \<Rightarrow> Inr (filter (matches f) (games w)))"


text \<open>An inclusion projection \<^verbatim>\<open>{ field: 1, ... }\<close>, given by the names it lists.\<close>

definition project :: "string list \<Rightarrow> game \<Rightarrow> lean_game" where
  "project fs g =
    \<lparr> l_id = (if ''_id'' \<in> set fs then Some (g_id g) else None),
      l_nome = (if ''nome'' \<in> set fs then Some (g_nome g) else None),
      l_description = (if ''description'' \<in> set fs then Some (g_description g) else None),
      l_image = (if ''image'' \<in> set fs then Some (g_image g) else None),
      l_userId = (if ''userId'' \<in> set fs then Some (g_userId g) else None),
      l_status = (if ''status'' \<in> set fs then Some (g_status g) else None),
      l_updatedAt = (if ''updatedAt'' \<in> set fs then Some (g_updatedAt g) else None),
      l_updatedBy = (if ''updatedBy'' \<in> set fs then g_updatedBy g else None) \<rparr>"

text \<open>
  \<^verbatim>\<open>gameModel.find(filter, projection).sort({ updatedAt: -1 }).limit(n).lean().exec()\<close>:
  the store filters, sorts by \<open>updatedAt\<close> descending, cuts to \<open>n\<close> documents and projects.
  The store leaves the order of equal timestamps open; here they keep the collection's.
\<close>

definition game_find_last :: "game_filter \<Rightarrow> string list \<Rightarrow> nat \<Rightarrow> world \<Rightarrow> js_error + lean_game list" where
  "game_find_last f fs n w =
    (case game_fault w of
       Some e \<Rightarrow> Inl e
     | None \<Rightarrow>
         Inr (map (project fs)
               (take n (sort_key (\<lambda>g. - g_updatedAt g) (filter (matches f) (games w))))))"

text \<open>
  \<^verbatim>\<open>userModel.find({ _id: { $in: userIds } }).lean().exec()\<close>. An \<^verbatim>\<open>undefined\<close> among
  \<open>userIds\<close> equals no user's \<open>_id\<close>.
\<close>

definition user_find_in :: "string option list \<Rightarrow> world \<Rightarrow> js_error + user list" where
  "user_find_in ids w =
    (case user_fault w of
       Some e \<Rightarrow> Inl e
     | None \<Rightarrow> Inr (filter (\<lambda>u. Some (u_id u) \<in> set ids) (users w)))"

text \<open>
  \<^verbatim>\<open>aggregate([{ $match: { userId } }, { $group: { _id: '$status', count: { $sum: 1 } } }])\<close>:
  one group per status among the user's games, with the number of games in it.
\<close>

definition game_aggregate_status :: "string \<Rightarrow> world \<Rightarrow> js_error + (string \<times> nat) list" where
  "game_aggregate_status uid w =
    (case game_fault w of
       Some e \<Rightarrow> Inl e
     | None \<Rightarrow>
         (let ms = filter (\<lambda>g. g_userId g = uid) (games w)
          in Inr (map (\<lambda>s. (s, length (filter (\<lambda>g. g_status g = s) ms)))
                   (remdups (map g_status ms)))))"

text \<open>
  Modelled from the spec: what \<^verbatim>\<open>new this.gameModel(dto).save()\<close> stores depends on the
  Game schema, which is not among the sources. The id comes from the driver, the four
  required paths must be present, \<open>status\<close> takes the schema's default (the world's
  \<open>default_status\<close>) when the dto has none, \<open>updatedAt\<close> is stamped with the clock.
\<close>

definition game_save :: "create_game_dto \<Rightarrow> world \<Rightarrow> (js_error + game) \<times> world" where
  "game_save dto w =
    (case game_fault w of
       Some e \<Rightarrow> (Inl e, w)
     | None \<Rightarrow>
        (case (d_nome dto, d_description dto, d_image dto, d_userId dto) of
           (Some n, Some d, Some i, Some u) \<Rightarrow>
             (let g = \<lparr> g_id = gen_oid w (oid_counter w), g_nome = n, g_description = d,
                         g_image = i, g_userId = u,
                         g_status = (case d_status dto of None \<Rightarrow> default_status w | Some s \<Rightarrow> s),
                         g_updatedAt = now w, g_updatedBy = d_updatedBy dto \<rparr>
              in (Inr g, w\<lparr>games := games w @ [g], oid_counter := Suc (oid_counter w)\<rparr>))
         | _ \<Rightarrow>
             (Inl \<lparr>message = ''Game validation failed'', stack = []\<rparr>, w)))"

text \<open>The update document \<^verbatim>\<open>{ ...updateGameDto, updatedAt: new Date() }\<close> applied to a game.\<close>

definition apply_update :: "create_game_dto \<Rightarrow> int \<Rightarrow> game \<Rightarrow> game" where
  "apply_update dto t g =
    g\<lparr> g_nome := (case d_nome dto of None \<Rightarrow> g_nome g | Some v \<Rightarrow> v),
       g_description := (case d_description dto of None \<Rightarrow> g_description g | Some v \<Rightarrow> v),
       g_image := (case d_image dto of None \<Rightarrow> g_image g | Some v \<Rightarrow> v),
       g_userId := (case d_userId dto of None \<Rightarrow> g_userId g | Some v \<Rightarrow> v),
       g_status := (case d_status dto of None \<Rightarrow> g_status g | Some v \<Rightarrow> v),
       g_updatedBy := (case d_updatedBy dto of None \<Rightarrow> g_updatedBy g | Some v \<Rightarrow> Some v),
       g_updatedAt := t \<rparr>"

fun replace_first :: "('a \<Rightarrow> bool) \<Rightarrow> ('a \<Rightarrow> 'a) \<Rightarrow> 'a list \<Rightarrow> 'a list" where
  "replace_first p f [] = []"
| "replace_first p f (x # xs) = (if p x then f x # xs else x # replace_first p f xs)"

fun delete_first :: "('a \<Rightarrow> bool) \<Rightarrow> 'a list \<Rightarrow> 'a list" where
  "delete_first p [] = []"
| "delete_first p (x # xs) = (if p x then xs else x # delete_first p xs)"

text \<open>
  \<^verbatim>\<open>gameModel.findByIdAndUpdate(id, update, { new: true }).exec()\<close>: the document after
  the update, or \<^verbatim>\<open>null\<close> when no document has the id (nothing is inserted).
\<close>

definition game_findByIdAndUpdate ::
  "string \<Rightarrow> create_game_dto \<Rightarrow> int \<Rightarrow> world \<Rightarrow> (js_error + game option) \<times> world" where
  "game_findByIdAndUpdate i dto t w =
    (case game_fault w of
       Some e \<Rightarrow> (Inl e, w)
     | None \<Rightarrow>
        (case find (\<lambda>g. g_id g = i) (games w) of
           None \<Rightarrow> (Inr None, w)
         | Some g \<Rightarrow>
             (Inr (Some (apply_update dto t g)),
              w\<lparr>games := replace_first (\<lambda>g. g_id g = i) (apply_update dto t) (games w)\<rparr>)))"

text \<open>
  \<^verbatim>\<open>gameModel.findByIdAndDelete(id).exec()\<close>: the document as it was, or \<^verbatim>\<open>null\<close>
  when no document has the id.
\<close>

definition game_findByIdAndDelete :: "string \<Rightarrow> world \<Rightarrow> (js_error + game option) \<times> world" where
  "game_findByIdAndDelete i w =
    (case game_fault w of
       Some e \<Rightarrow> (Inl e, w)
     | None \<Rightarrow>
        (case find (\<lambda>g. g_id g = i) (games w) of
           None \<Rightarrow> (Inr None, w)
         | Some g \<Rightarrow> (Inr (Some g), w\<lparr>games := delete_first (\<lambda>g. g_id g = i) (games w)\<rparr>)))"

subsection \<open>GameService\<close>

text \<open>\<^verbatim>\<open>findByUser(userId, status?)\<close>, lines 29 to 38.\<close>

definition findByUser :: "string \<Rightarrow> string option \<Rightarrow> world \<Rightarrow> (exn + game list) \<times> world" where
  "findByUser userId status w =
    (let w1 = logger (Log (''Fetching games for user: '' @ userId)) w;
         filter0 = \<lparr>f_userId = Some userId, f_status = None\<rparr>;
         filter1 = (if truthy status then filter0\<lparr>f_status := status\<rparr> else filter0)
     in case game_find filter1 w1 of
          Inl e \<Rightarrow> (Inl (StoreFailure e), w1)
        | Inr gs \<Rightarrow>
            (Inr gs,
             logger (Log (''Found '' @ show_nat (length gs) @ '' games for user: '' @ userId)) w1))"


text \<open>
  The enrichment, written twice in the source with the same text (lines 76 to 90 and 148
  to 162): each game is looked up among the fetched users by
  \<^verbatim>\<open>String(user._id) === String(game.userId)\<close>.
\<close>

definition with_user :: "lean_game \<Rightarrow> user_summary + string \<Rightarrow> formatted_game" where
  "with_user g u =
    \<lparr> l_id = l_id g, l_nome = l_nome g, l_description = l_description g, l_image = l_image g,
      l_userId = l_userId g, l_status = l_status g, l_updatedAt = l_updatedAt g,
      l_updatedBy = l_updatedBy g, fg_user = u \<rparr>"

definition formattedGames :: "user list \<Rightarrow> lean_game list \<Rightarrow> formatted_game list" where
  "formattedGames us gs =
    map (\<lambda>game.
          with_user game
            (case find (\<lambda>user. u_id user = String_js (l_userId game)) us of
               Some user \<Rightarrow> Inl \<lparr>s_id = u_id user, s_name = u_nome user, s_picture = u_picture user\<rparr>
             | None \<Rightarrow> Inr ''Unknown''))
        gs"

text \<open>
  \<^verbatim>\<open>getLastGamesUpdated()\<close>, lines 51 to 100. \<open>getLastGamesUpdated_try\<close> is the body of
  the \<^verbatim>\<open>try\<close> block, whose only throwing statements are the two queries;
  \<open>getLastGamesUpdated\<close> adds the \<^verbatim>\<open>catch\<close>.
\<close>

definition getLastGamesUpdated_try :: "world \<Rightarrow> (js_error + formatted_game list) \<times> world" where
  "getLastGamesUpdated_try w =
    (let w1 = logger (Log ''Fetching last games updated'') w
     in case game_find_last \<lparr>f_userId = None, f_status = None\<rparr>
               [''_id'', ''nome'', ''updatedAt'', ''updatedBy'', ''userId'', ''image''] 5 w1 of
          Inl e \<Rightarrow> (Inl e, w1)
        | Inr gs \<Rightarrow>
            if gs = [] then (Inr [], logger (Warn ''No games found'') w1)
            else
              (case user_find_in (map l_userId gs) w1 of
                 Inl e \<Rightarrow> (Inl e, w1)
               | Inr us \<Rightarrow>
                   (Inr (formattedGames us gs),
                    logger (Log (''Found '' @ show_nat (length gs) @ '' games'')) w1)))"

definition getLastGamesUpdated :: "world \<Rightarrow> (exn + formatted_game list) \<times> world" where
  "getLastGamesUpdated w =
    (case getLastGamesUpdated_try w of
       (Inr r, w2) \<Rightarrow> (Inr r, w2)
     | (Inl e, w2) \<Rightarrow>
         (Inl (BadRequestException ''Error fetching games. Please try again later.''),
          logger (LogError (''Error fetching games: '' @ message e) (Some (stack e))) w2))"

text \<open>
  \<^verbatim>\<open>getGameDistributionByUser(userId)\<close>, lines 102 to 123. The object that
  \<^verbatim>\<open>reduce\<close> fills is a map from property name to count.
\<close>

definition getGameDistributionByUser ::
  "string \<Rightarrow> world \<Rightarrow> (exn + (string \<rightharpoonup> nat)) \<times> world" where
  "getGameDistributionByUser userId w =
    (let w1 = logger (Log (''Fetching game distribution for user: '' @ userId)) w
     in case game_aggregate_status userId w1 of
          Inl e \<Rightarrow> (Inl (StoreFailure e), w1)
        | Inr groups \<Rightarrow>
            (Inr (foldl (\<lambda>acc grp. acc(fst grp \<mapsto> snd grp)) Map.empty groups),
             logger (Log (''Found game distribution for user: '' @ userId)) w1))"

text \<open>\<^verbatim>\<open>getLastGamesUpdatedByUser(userId)\<close>, lines 125 to 166. There is no \<^verbatim>\<open>try\<close>.\<close>

definition getLastGamesUpdatedByUser ::
  "string \<Rightarrow> world \<Rightarrow> (exn + formatted_game list) \<times> world" where
  "getLastGamesUpdatedByUser userId w =
    (let w1 = logger (Log (''Fetching last games updated for user: '' @ userId)) w
     in case game_find_last \<lparr>f_userId = Some userId, f_status = None\<rparr>
               [''_id'', ''nome'', ''updatedAt'', ''updatedBy'', ''image''] 5 w1 of
          Inl e \<Rightarrow> (Inl (StoreFailure e), w1)
        | Inr gs \<Rightarrow>
            if gs = [] then (Inr [], logger (Warn ''No games found'') w1)
            else
              (case user_find_in (map l_userId gs) w1 of
                 Inl e \<Rightarrow> (Inl (StoreFailure e), w1)
               | Inr us \<Rightarrow>
                   (Inr (formattedGames us gs),
                    logger (Log (''Found '' @ show_nat (length gs) @ '' games for user: '' @ userId))
                      w1)))"

definition requiredFields :: "string list" where
  "requiredFields = [''nome'', ''description'', ''image'', ''userId'']"

definition validStatuses :: "string list" where
  "validStatuses = [''Pendente'', ''Progresso'', ''Pausado'', ''Completo'']"

text \<open>\<^verbatim>\<open>validStatuses.includes(dto.status)\<close>: \<^verbatim>\<open>undefined\<close> is no element of the array.\<close>

definition includes_js :: "string list \<Rightarrow> string option \<Rightarrow> bool" where
  "includes_js xs v = (case v of None \<Rightarrow> False | Some s \<Rightarrow> s \<in> set xs)"

text \<open>
  \<^verbatim>\<open>create(createGameDto)\<close>, lines 168 to 189. The \<^verbatim>\<open>for\<close> loop throws at the first
  required field whose value is falsy.
\<close>

definition create :: "create_game_dto \<Rightarrow> world \<Rightarrow> (exn + game) \<times> world" where
  "create createGameDto w =
    (let w1 = logger (Log ''Creating a new game'') w
     in case find (\<lambda>field. \<not> truthy (dto_get createGameDto field)) requiredFields of
          Some field \<Rightarrow>
            (Inl (BadRequestException (''Missing required field: '' @ field)),
             logger (LogError (''Missing required field: '' @ field) None) w1)
        | None \<Rightarrow>
            if truthy (d_status createGameDto) \<and> \<not> includes_js validStatuses (d_status createGameDto)
            then
              (Inl (BadRequestException (''Invalid status: '' @ String_js (d_status createGameDto))),
               logger (LogError (''Invalid status: '' @ String_js (d_status createGameDto)) None) w1)
            else
              (case game_save createGameDto w1 of
                 (Inl e, w2) \<Rightarrow> (Inl (StoreFailure e), w2)
               | (Inr savedGame, w2) \<Rightarrow>
                   (Inr savedGame, logger (Log (''Created game with id: '' @ g_id savedGame)) w2)))"

text \<open>\<^verbatim>\<open>update(id, updateGameDto)\<close>, lines 191 to 216.\<close>

definition update :: "string \<Rightarrow> create_game_dto \<Rightarrow> world \<Rightarrow> (exn + game) \<times> world" where
  "update i updateGameDto w =
    (let w1 = logger (Log (''Updating game with id: '' @ i)) w
     in if truthy (d_status updateGameDto) \<and> \<not> includes_js validStatuses (d_status updateGameDto)
        then
          (Inl (BadRequestException (''Invalid status: '' @ String_js (d_status updateGameDto))),
           logger (LogError (''Invalid status: '' @ String_js (d_status updateGameDto)) None) w1)
        else
          (case game_findByIdAndUpdate i updateGameDto (now w1) w1 of
             (Inl e, w2) \<Rightarrow> (Inl (StoreFailure e), w2)
           | (Inr None, w2) \<Rightarrow>
               (Inl (BadRequestException (''Game with id: '' @ i @ '' not found'')),
                logger (LogError (''Game with id: '' @ i @ '' not found'') None) w2)
           | (Inr (Some updatedGame), w2) \<Rightarrow>
               (Inr updatedGame, logger (Log (''Updated game with id: '' @ g_id updatedGame)) w2)))"

text \<open>
  \<^verbatim>\<open>remove(id)\<close>, lines 218 to 223. The template literal of line 221 reads
  \<^verbatim>\<open>removedGame._id\<close> before the \<^verbatim>\<open>return\<close>; reading a property of \<^verbatim>\<open>null\<close> throws
  a \<^verbatim>\<open>TypeError\<close>.
\<close>

definition remove_game :: "string \<Rightarrow> world \<Rightarrow> (exn + game) \<times> world" where
  "remove_game i w =
    (let w1 = logger (Log (''Removing game with id: '' @ i)) w
     in case game_findByIdAndDelete i w1 of
          (Inl e, w2) \<Rightarrow> (Inl (StoreFailure e), w2)
        | (Inr None, w2) \<Rightarrow>
            (Inl (TypeError ''Cannot read properties of null (reading '_id')''), w2)
        | (Inr (Some removedGame), w2) \<Rightarrow>
            (Inr removedGame, logger (Log (''Removed game with id: '' @ g_id removedGame)) w2))"

subsection \<open>Concrete worlds\<close>

text \<open>
  Two users and seven games. Game \<open>g3\<close> belongs to a user that does not exist; \<open>g2\<close> and
  \<open>g5\<close> share a timestamp.
\<close>

definition ana :: user where
  "ana = \<lparr>u_id = ''u1'', u_nome = ''Ana'', u_picture = ''ana.png''\<rparr>"

definition bia :: user where
  "bia = \<lparr>u_id = ''u2'', u_nome = ''Bia'', u_picture = ''bia.png''\<rparr>"

definition mk_game :: "string \<Rightarrow> string \<Rightarrow> string \<Rightarrow> int \<Rightarrow> game" where
  "mk_game i uid st t =
    \<lparr> g_id = i, g_nome = ''Game '' @ i, g_description = ''About '' @ i, g_image = i @ ''.png'',
      g_userId = uid, g_status = st, g_updatedAt = t, g_updatedBy = None \<rparr>"

definition g1 :: game where "g1 = mk_game ''g1'' ''u1'' ''Pendente'' 100"
definition g2 :: game where "g2 = mk_game ''g2'' ''u1'' ''Pendente'' 300"
definition g3 :: game where "g3 = mk_game ''g3'' ''u9'' ''Progresso'' 700"
definition g4 :: game where "g4 = mk_game ''g4'' ''u1'' ''Completo'' 200"
definition g5 :: game where "g5 = mk_game ''g5'' ''u2'' ''Pausado'' 300"
definition g6 :: game where "g6 = mk_game ''g6'' ''u2'' ''Completo'' 600"
definition g7 :: game where "g7 = mk_game ''g7'' ''u2'' ''Pendente'' 500"

definition oid_of :: "nat \<Rightarrow> string" where
  "oid_of n = ''oid'' @ show_nat n"

definition world0 :: world where
  "world0 =
    \<lparr> games = [], users = [ana, bia], logs = [], now = 1000, game_fault = None,
      user_fault = None, oid_counter = 0, gen_oid = oid_of, default_status = ''Pendente'' \<rparr>"

definition world1 :: world where
  "world1 = world0\<lparr>games := [g1]\<rparr>"

definition world3 :: world where
  "world3 = world0\<lparr>games := [g1, g2, g4]\<rparr>"

definition world7 :: world where
  "world7 = world0\<lparr>games := [g1, g2, g3, g4, g5, g6, g7]\<rparr>"

definition econnreset :: js_error where
  "econnreset = \<lparr>message = ''read ECONNRESET'', stack = ''Error: read ECONNRESET at TCP.onStreamRead''\<rparr>"

definition games_down :: world where
  "games_down = world7\<lparr>game_fault := Some econnreset\<rparr>"

definition users_down :: world where
  "users_down = world7\<lparr>user_fault := Some econnreset\<rparr>"

definition dto_none :: create_game_dto where
  "dto_none =
    \<lparr> d_nome = None, d_description = None, d_image = None, d_userId = None, d_status = None,
      d_updatedBy = None \<rparr>"

definition dto_hades :: create_game_dto where
  "dto_hades =
    \<lparr> d_nome = Some ''Hades'', d_description = Some ''Roguelike'', d_image = Some ''hades.png'',
      d_userId = Some ''u1'', d_status = None, d_updatedBy = Some ''ana'' \<rparr>"

subsection \<open>Auxiliary notions for the statements\<close>

text \<open>The page that \<open>game_find_last\<close> cuts out of the collection, before projection.\<close>

definition last_page :: "game_filter \<Rightarrow> world \<Rightarrow> game list" where
  "last_page f w = take 5 (sort_key (\<lambda>g. - g_updatedAt g) (filter (matches f) (games w)))"

section \<open>Properties\<close>

lemmas world_defs =
  world0_def world1_def world3_def world7_def games_down_def users_down_def ana_def bia_def
  g1_def g2_def g3_def g4_def g5_def g6_def g7_def mk_game_def econnreset_def dto_none_def
  dto_hades_def oid_of_def

lemma logger_fields [simp]:
  "games (logger e w) = games w" "users (logger e w) = users w"
  "game_fault (logger e w) = game_fault w" "user_fault (logger e w) = user_fault w"
  "now (logger e w) = now w" "logs (logger e w) = logs w @ [e]"
  "gen_oid (logger e w) = gen_oid w" "oid_counter (logger e w) = oid_counter w"
  "default_status (logger e w) = default_status w"
  by (simp_all add: logger_def)

subsection \<open>remove\<close>

lemma remove_game_existing:
  assumes "game_fault w = None" and "find (\<lambda>g. g_id g = i) (games w) = Some g"
  shows "fst (remove_game i w) = Inr g"
    and "games (snd (remove_game i w)) = delete_first (\<lambda>g. g_id g = i) (games w)"
  using assms by (simp_all add: remove_game_def game_findByIdAndDelete_def logger_def)

lemma remove_game_missing:
  assumes "game_fault w = None" and "find (\<lambda>g. g_id g = i) (games w) = None"
  shows "\<exists>m. fst (remove_game i w) = Inl (TypeError m)"
  using assms by (simp add: remove_game_def game_findByIdAndDelete_def logger_def)

text \<open>
  Claim C1. \<^verbatim>\<open>remove(id)\<close> deletes the game with that id and returns its prior state,
  and does not fail when no game has the id. The second half does not hold of the code:
  with the single game \<open>g1\<close> stored, \<^verbatim>\<open>remove('g9')\<close> finds nothing, the store resolves
  \<^verbatim>\<open>null\<close>, and the log line of line 221 reads \<^verbatim>\<open>removedGame._id\<close>: the call rejects
  with a \<^verbatim>\<open>TypeError\<close> and the collection is as before.
\<close>

theorem remove_missing_id_throws:
  "fst (remove_game ''g9'' world1) =
     Inl (TypeError ''Cannot read properties of null (reading '_id')'')
   \<and> games (snd (remove_game ''g9'' world1)) = [g1]"
  by (simp add: remove_game_def game_findByIdAndDelete_def logger_def world_defs)

subsection \<open>The last games updated of one user\<close>

text \<open>
  However the collections stand, a game that \<^verbatim>\<open>getLastGamesUpdatedByUser\<close> returns has
  no \<open>userId\<close> and carries the string \<^verbatim>\<open>'Unknown'\<close>.
\<close>

lemma by_user_always_unknown:
  assumes "fst (getLastGamesUpdatedByUser userId w) = Inr r"
  shows "list_all (\<lambda>g. l_userId g = None \<and> fg_user g = Inr ''Unknown'') r"
proof -
  let ?fs = "[''_id'', ''nome'', ''updatedAt'', ''updatedBy'', ''image'']"
  define gs where "gs = map (project ?fs) (last_page \<lparr>f_userId = Some userId, f_status = None\<rparr> w)"
  have none: "l_userId g = None" if "g \<in> set gs" for g
    using that by (auto simp: gs_def project_def)
  have q: "game_find_last \<lparr>f_userId = Some userId, f_status = None\<rparr> ?fs 5 (logger l w) =
      (case game_fault w of Some e \<Rightarrow> Inl e | None \<Rightarrow> Inr gs)" for l
    by (simp add: game_find_last_def gs_def last_page_def split: option.splits)
  have "filter (\<lambda>u. Some (u_id u) \<in> set (map l_userId gs)) (users w) = []"
    by (auto simp: filter_empty_conv none)
  then have u: "user_find_in (map l_userId gs) (logger l w) =
      (case user_fault w of Some e \<Rightarrow> Inl e | None \<Rightarrow> Inr [])" for l
    by (simp add: user_find_in_def split: option.splits)
  have fmt: "list_all (\<lambda>g. l_userId g = None \<and> fg_user g = Inr ''Unknown'') (formattedGames [] gs)"
    by (simp add: formattedGames_def list_all_iff with_user_def none)
  from assms show ?thesis
    by (auto simp: getLastGamesUpdatedByUser_def Let_def q u fmt split: option.splits if_splits)
qed

text \<open>
  Claim C2. \<^verbatim>\<open>getLastGamesUpdatedByUser\<close> enriches as \<^verbatim>\<open>getLastGamesUpdated\<close> does: a
  game whose owner exists carries the owner's summary. This does not hold of the code:
  the projection of line 130 leaves \<open>userId\<close> out, so \<^verbatim>\<open>game.userId\<close> is \<^verbatim>\<open>undefined\<close>
  in every lean document and no user is ever matched. Game \<open>g1\<close> belongs to the
  existing user \<open>ana\<close>; the query by user returns it with \<^verbatim>\<open>'Unknown'\<close>, the query over
  all users returns it with her summary.
\<close>

theorem by_user_drops_owner:
  "fst (getLastGamesUpdatedByUser ''u1'' world1) =
     Inr [with_user (project [''_id'', ''nome'', ''updatedAt'', ''updatedBy'', ''image''] g1)
            (Inr ''Unknown'')]
   \<and> fst (getLastGamesUpdated world1) =
     Inr [with_user
            (project [''_id'', ''nome'', ''updatedAt'', ''updatedBy'', ''userId'', ''image''] g1)
            (Inl \<lparr>s_id = ''u1'', s_name = ''Ana'', s_picture = ''ana.png''\<rparr>)]
   \<and> g_userId g1 = u_id ana \<and> users world1 = [ana, bia]"
  by (simp add: getLastGamesUpdatedByUser_def getLastGamesUpdated_def getLastGamesUpdated_try_def
      game_find_last_def user_find_in_def formattedGames_def logger_def matches_def project_def
      String_js_def world_defs)

subsection \<open>The last games updated\<close>






lemma formattedGames_length [simp]: "length (formattedGames us gs) = length gs"
  by (simp add: formattedGames_def)



subsection \<open>A missing id: update against findById\<close>



subsection \<open>Store failures\<close>

lemma sort_key_eq_Nil [simp]: "sort_key f xs = [] \<longleftrightarrow> xs = []"
proof -
  have "length (sort_key f xs) = length xs" by simp
  then show ?thesis by (metis length_0_conv)
qed

text \<open>
  Claim C6. When the store rejects a query with an error \<open>e\<close> (the game query, or the
  user query that follows a non-empty page), \<^verbatim>\<open>getLastGamesUpdated\<close> throws the generic
  "try again later" exception and logs the message and stack of \<open>e\<close>, whereas
  \<^verbatim>\<open>getLastGamesUpdatedByUser\<close> rejects with \<open>e\<close> itself.
\<close>

theorem store_failure_wrapped_or_propagated:
  assumes "game_fault w = Some e \<or>
    (game_fault w = None \<and> user_fault w = Some e \<and> (\<exists>g\<in>set (games w). g_userId g = userId))"
  shows "fst (getLastGamesUpdated w) = Inl (BadRequestException ''Error fetching games. Please try again later.'')
    \<and> logs (snd (getLastGamesUpdated w)) =
        logs w @ [Log ''Fetching last games updated'',
                  LogError (''Error fetching games: '' @ message e) (Some (stack e))]
    \<and> fst (getLastGamesUpdatedByUser userId w) = Inl (StoreFailure e)"
  using assms
proof
  assume "game_fault w = Some e"
  then show ?thesis
    by (simp add: getLastGamesUpdated_def getLastGamesUpdated_try_def
        getLastGamesUpdatedByUser_def game_find_last_def Let_def)
next
  assume a: "game_fault w = None \<and> user_fault w = Some e \<and> (\<exists>g\<in>set (games w). g_userId g = userId)"
  then obtain g where g: "g \<in> set (games w)" "g_userId g = userId" by blast
  then have "filter (matches \<lparr>f_userId = Some userId, f_status = None\<rparr>) (games w) \<noteq> []"
    by (auto simp: filter_empty_conv matches_def)
  moreover from g have "filter (matches \<lparr>f_userId = None, f_status = None\<rparr>) (games w) \<noteq> []"
    by (auto simp: filter_empty_conv matches_def)
  ultimately show ?thesis
    using a
    by (simp add: getLastGamesUpdated_def getLastGamesUpdated_try_def
        getLastGamesUpdatedByUser_def game_find_last_def user_find_in_def Let_def)
qed

theorem store_failure_wrapped_or_propagated_witness:
  "game_fault games_down = Some econnreset
   \<and> fst (getLastGamesUpdated games_down) =
       Inl (BadRequestException ''Error fetching games. Please try again later.'')
   \<and> fst (getLastGamesUpdatedByUser ''u1'' games_down) = Inl (StoreFailure econnreset)
   \<and> game_fault users_down = None \<and> user_fault users_down = Some econnreset
   \<and> g1 \<in> set (games users_down) \<and> g_userId g1 = ''u1''
   \<and> fst (getLastGamesUpdated users_down) =
       Inl (BadRequestException ''Error fetching games. Please try again later.'')
   \<and> logs (snd (getLastGamesUpdated users_down)) =
       [Log ''Fetching last games updated'',
        LogError ''Error fetching games: read ECONNRESET''
          (Some ''Error: read ECONNRESET at TCP.onStreamRead'')]
   \<and> fst (getLastGamesUpdatedByUser ''u1'' users_down) = Inl (StoreFailure econnreset)"
  using store_failure_wrapped_or_propagated [of games_down econnreset "''u1''"]
    store_failure_wrapped_or_propagated [of users_down econnreset "''u1''"]
  by (simp add: world_defs)

subsection \<open>The status distribution\<close>

lemma foldl_groups:
  "foldl (\<lambda>acc grp. acc(fst grp \<mapsto> snd grp)) m (map (\<lambda>s. (s, c s)) ks)
     = (\<lambda>k. if k \<in> set ks then Some (c k) else m k)"
  by (induction ks arbitrary: m) (auto simp: fun_eq_iff)

text \<open>
  Claim C8. When the store answers, \<^verbatim>\<open>getGameDistributionByUser(userId)\<close> returns a map
  that sends each status to the number of the user's games with that status, and has no
  entry for a status that none of the user's games has.
\<close>

theorem status_distribution:
  assumes "game_fault w = None"
  shows "\<exists>m. fst (getGameDistributionByUser userId w) = Inr m
    \<and> (\<forall>s. m s =
          (let n = length (filter (\<lambda>g. g_userId g = userId \<and> g_status g = s) (games w))
           in if n = 0 then None else Some n))"
proof -
  let ?ms = "filter (\<lambda>g. g_userId g = userId) (games w)"
  let ?c = "\<lambda>s. length (filter (\<lambda>g. g_status g = s) ?ms)"
  let ?m = "foldl (\<lambda>acc grp. acc(fst grp \<mapsto> snd grp)) Map.empty
              (map (\<lambda>s. (s, ?c s)) (remdups (map g_status ?ms)))"
  have v: "fst (getGameDistributionByUser userId w) = Inr ?m"
    using assms by (simp add: getGameDistributionByUser_def game_aggregate_status_def Let_def)
  have "?m s = (let n = length (filter (\<lambda>g. g_userId g = userId \<and> g_status g = s) (games w))
           in if n = 0 then None else Some n)" for s
  proof -
    have "s \<in> set (remdups (map g_status ?ms)) \<longleftrightarrow> ?c s \<noteq> 0"
      by (auto simp: filter_empty_conv)
    then show ?thesis
      by (simp add: foldl_groups Let_def)
  qed
  with v show ?thesis by blast
qed

theorem status_distribution_witness:
  "game_fault world3 = None
   \<and> (\<exists>m. fst (getGameDistributionByUser ''u1'' world3) = Inr m
        \<and> m ''Pendente'' = Some 2 \<and> m ''Completo'' = Some 1
        \<and> m ''Progresso'' = None \<and> m ''Pausado'' = None)"
proof -
  have h: "game_fault world3 = None" by (simp add: world_defs)
  from status_distribution [OF h, of "''u1''"] obtain m where
    m: "fst (getGameDistributionByUser ''u1'' world3) = Inr m"
    and c: "\<And>s. m s =
          (let n = length (filter (\<lambda>g. g_userId g = ''u1'' \<and> g_status g = s) (games world3))
           in if n = 0 then None else Some n)"
    by blast
  have "m ''Pendente'' = Some 2" "m ''Completo'' = Some 1" "m ''Progresso'' = None"
    "m ''Pausado'' = None"
    by (simp_all add: c world_defs)
  with h m show ?thesis by blast
qed

subsection \<open>Games of a user\<close>

text \<open>
  Claim C9, as stated, fails for the empty status: \<^verbatim>\<open>if (status)\<close> treats \<^verbatim>\<open>''\<close> as
  no status, so the call returns all three games of user \<open>u1\<close>, none of which has the
  status \<^verbatim>\<open>''\<close>.
\<close>

theorem findByUser_blank_status_counterexample:
  "fst (findByUser ''u1'' (Some []) world3) = Inr [g1, g2, g4]
   \<and> g_userId g1 = ''u1'' \<and> g_status g1 = ''Pendente'' \<and> g_status g1 \<noteq> []"
  by (simp add: findByUser_def game_find_def matches_def truthy_def world_defs)

text \<open>
  Claim C9, amended. When the store answers, \<^verbatim>\<open>findByUser(userId, status)\<close> with a
  non-empty status returns exactly the games of that user with that status, in the
  collection's order; with no status, or with the empty string, it returns all games
  of that user. (A list that \<open>filter\<close> returns is empty when nothing matches.)
\<close>

theorem findByUser_filter:
  assumes "game_fault w = None"
  shows "(s \<noteq> [] \<longrightarrow>
            fst (findByUser userId (Some s) w) =
              Inr (filter (\<lambda>g. g_userId g = userId \<and> g_status g = s) (games w)))
    \<and> fst (findByUser userId (Some []) w) = Inr (filter (\<lambda>g. g_userId g = userId) (games w))
    \<and> fst (findByUser userId None w) = Inr (filter (\<lambda>g. g_userId g = userId) (games w))"
  using assms
  by (simp add: findByUser_def game_find_def matches_def [abs_def] truthy_def Let_def)

theorem findByUser_filter_witness:
  "game_fault world3 = None \<and> ''Completo'' \<noteq> []
   \<and> fst (findByUser ''u1'' (Some ''Completo'') world3) = Inr [g4]
   \<and> fst (findByUser ''u1'' (Some ''Pausado'') world3) = Inr []
   \<and> fst (findByUser ''u1'' None world3) = Inr [g1, g2, g4]
   \<and> fst (findByUser ''u2'' None world3) = Inr []"
  using findByUser_filter [of world3 "''Completo''" "''u1''"]
    findByUser_filter [of world3 "''Pausado''" "''u1''"]
    findByUser_filter [of world3 "''Pausado''" "''u2''"]
  by (simp add: world_defs)

subsection \<open>update\<close>

lemma find_first_split:
  assumes "\<forall>x\<in>set pre. \<not> p x" and "p g"
  shows "find p (pre @ g # post) = Some g"
    and "replace_first p f (pre @ g # post) = pre @ f g # post"
  using assms by (induction pre) auto

text \<open>
  Claim C7. When the store answers, a game \<open>g\<close> with the id exists (the first such in the
  collection) and the dto's status, if any, is one of the four, \<^verbatim>\<open>update(id, dto)\<close>
  returns \<open>g\<close> with exactly the supplied fields replaced and \<open>updatedAt\<close> set to the
  clock's reading, and stores it in place of \<open>g\<close>, the other games untouched. With the
  empty dto only \<open>updatedAt\<close> changes.
\<close>

theorem update_applies_partial:
  assumes "game_fault w = None"
    and "games w = pre @ g # post" and "g_id g = i" and "\<forall>x\<in>set pre. g_id x \<noteq> i"
    and "case d_status dto of None \<Rightarrow> True | Some s \<Rightarrow> s \<in> set validStatuses"
  shows "fst (update i dto w) =
      Inr \<lparr> g_id = g_id g,
            g_nome = (case d_nome dto of None \<Rightarrow> g_nome g | Some v \<Rightarrow> v),
            g_description = (case d_description dto of None \<Rightarrow> g_description g | Some v \<Rightarrow> v),
            g_image = (case d_image dto of None \<Rightarrow> g_image g | Some v \<Rightarrow> v),
            g_userId = (case d_userId dto of None \<Rightarrow> g_userId g | Some v \<Rightarrow> v),
            g_status = (case d_status dto of None \<Rightarrow> g_status g | Some v \<Rightarrow> v),
            g_updatedAt = now w,
            g_updatedBy = (case d_updatedBy dto of None \<Rightarrow> g_updatedBy g | Some v \<Rightarrow> Some v) \<rparr>
    \<and> (\<exists>g'. fst (update i dto w) = Inr g' \<and> games (snd (update i dto w)) = pre @ g' # post)
    \<and> (dto = dto_none \<longrightarrow> fst (update i dto w) = Inr (g\<lparr>g_updatedAt := now w\<rparr>))"
proof -
  have ok: "(truthy (d_status dto) \<and> \<not> includes_js validStatuses (d_status dto)) = False"
    using assms(5) by (simp add: truthy_def includes_js_def split: option.splits)
  have f: "find (\<lambda>g. g_id g = i) (games w) = Some g"
    and r: "replace_first (\<lambda>g. g_id g = i) (apply_update dto (now w)) (games w)
        = pre @ apply_update dto (now w) g # post"
    using assms(2,3,4) by (simp_all add: find_first_split)
  have v: "fst (update i dto w) = Inr (apply_update dto (now w) g)"
    and s: "games (snd (update i dto w)) = pre @ apply_update dto (now w) g # post"
    using assms(1) f r
    by (simp_all add: update_def game_findByIdAndUpdate_def Let_def ok)
  have e: "apply_update dto (now w) g =
      \<lparr> g_id = g_id g,
            g_nome = (case d_nome dto of None \<Rightarrow> g_nome g | Some v \<Rightarrow> v),
            g_description = (case d_description dto of None \<Rightarrow> g_description g | Some v \<Rightarrow> v),
            g_image = (case d_image dto of None \<Rightarrow> g_image g | Some v \<Rightarrow> v),
            g_userId = (case d_userId dto of None \<Rightarrow> g_userId g | Some v \<Rightarrow> v),
            g_status = (case d_status dto of None \<Rightarrow> g_status g | Some v \<Rightarrow> v),
            g_updatedAt = now w,
            g_updatedBy = (case d_updatedBy dto of None \<Rightarrow> g_updatedBy g | Some v \<Rightarrow> Some v) \<rparr>"
    by (simp add: apply_update_def)
  have n: "apply_update dto_none (now w) g = g\<lparr>g_updatedAt := now w\<rparr>"
    by (simp add: apply_update_def dto_none_def)
  from v s e n show ?thesis by auto
qed

theorem update_applies_partial_witness:
  "game_fault world3 = None \<and> games world3 = [g1] @ g2 # [g4] \<and> g_id g2 = ''g2''
   \<and> g_id g1 \<noteq> ''g2''
   \<and> fst (update ''g2'' dto_none world3) = Inr (mk_game ''g2'' ''u1'' ''Pendente'' 1000)
   \<and> games (snd (update ''g2'' dto_none world3)) = [g1, mk_game ''g2'' ''u1'' ''Pendente'' 1000, g4]
   \<and> d_status (dto_none\<lparr>d_status := Some ''Completo'', d_updatedBy := Some ''ana''\<rparr>) = Some ''Completo''
   \<and> ''Completo'' \<in> set validStatuses
   \<and> fst (update ''g2'' (dto_none\<lparr>d_status := Some ''Completo'', d_updatedBy := Some ''ana''\<rparr>) world3)
       = Inr ((mk_game ''g2'' ''u1'' ''Completo'' 1000)\<lparr>g_updatedBy := Some ''ana''\<rparr>)"
proof -
  have h: "game_fault world3 = None" "games world3 = [g1] @ g2 # [g4]" "g_id g2 = ''g2''"
    "\<forall>x\<in>set [g1]. g_id x \<noteq> ''g2''"
    by (simp_all add: world_defs)
  have s1: "case d_status dto_none of None \<Rightarrow> True | Some s \<Rightarrow> s \<in> set validStatuses"
    by (simp add: dto_none_def)
  have s2: "case d_status (dto_none\<lparr>d_status := Some ''Completo'', d_updatedBy := Some ''ana''\<rparr>) of
      None \<Rightarrow> True | Some s \<Rightarrow> s \<in> set validStatuses"
    by (simp add: validStatuses_def)
  from update_applies_partial [OF h s1] update_applies_partial [OF h s2] h
  show ?thesis
    by (auto simp: world_defs validStatuses_def)
qed

subsection \<open>create\<close>

lemma truthy_Some: "truthy v \<longleftrightarrow> (\<exists>s. v = Some s \<and> s \<noteq> [])"
  by (cases v) (simp_all add: truthy_def)

lemma first_missing:
  "find (\<lambda>field. \<not> truthy (dto_get dto field)) requiredFields =
    (if \<not> truthy (d_nome dto) then Some ''nome''
     else if \<not> truthy (d_description dto) then Some ''description''
     else if \<not> truthy (d_image dto) then Some ''image''
     else if \<not> truthy (d_userId dto) then Some ''userId''
     else None)"
  by (simp add: requiredFields_def dto_get_def)

lemma status_check:
  "truthy v \<and> \<not> includes_js validStatuses v \<longleftrightarrow>
    (\<exists>s. v = Some s \<and> s \<noteq> []
       \<and> s \<notin> {''Pendente'', ''Progresso'', ''Pausado'', ''Completo''})"
  by (cases v) (simp_all add: truthy_def includes_js_def validStatuses_def)

lemma create_saves:
  assumes "d_nome dto = Some n" "n \<noteq> []" "d_description dto = Some d" "d \<noteq> []"
    "d_image dto = Some im" "im \<noteq> []" "d_userId dto = Some u" "u \<noteq> []"
    and "\<not> (truthy (d_status dto) \<and> \<not> includes_js validStatuses (d_status dto))"
    and "game_fault w = None"
  shows "create dto w =
    (let g = \<lparr> g_id = gen_oid w (oid_counter w), g_nome = n, g_description = d, g_image = im,
                g_userId = u,
                g_status = (case d_status dto of None \<Rightarrow> default_status w | Some s \<Rightarrow> s),
                g_updatedAt = now w, g_updatedBy = d_updatedBy dto \<rparr>
     in (Inr g,
         logger (Log (''Created game with id: '' @ g_id g))
           ((logger (Log ''Creating a new game'') w)
              \<lparr>games := games w @ [g], oid_counter := Suc (oid_counter w)\<rparr>)))"
proof -
  have "truthy (d_nome dto)" "truthy (d_description dto)" "truthy (d_image dto)"
    "truthy (d_userId dto)"
    using assms(1-8) by (simp_all add: truthy_def)
  then have nf: "find (\<lambda>field. \<not> truthy (dto_get dto field)) requiredFields = None"
    by (simp add: first_missing)
  have ok: "(truthy (d_status dto) \<and> \<not> includes_js validStatuses (d_status dto)) = False"
    using assms(9) by simp
  show ?thesis
    using assms(1-8,10)
    by (simp add: create_def nf ok game_save_def Let_def cong: option.case_cong)
qed

text \<open>
  Claim C4, as stated, fails for the empty status: the dto supplies the status \<^verbatim>\<open>''\<close>,
  which is none of the four values, and \<^verbatim>\<open>create\<close> does not throw but stores the game
  with that status.
\<close>

theorem create_blank_status_counterexample:
  "d_status (dto_hades\<lparr>d_status := Some []\<rparr>) = Some []
   \<and> [] \<notin> set validStatuses
   \<and> fst (create (dto_hades\<lparr>d_status := Some []\<rparr>) world1) =
       Inr \<lparr> g_id = ''oid0'', g_nome = ''Hades'', g_description = ''Roguelike'',
             g_image = ''hades.png'', g_userId = ''u1'', g_status = [], g_updatedAt = 1000,
             g_updatedBy = Some ''ana'' \<rparr>"
  by (simp add: create_def requiredFields_def dto_get_def truthy_def game_save_def
      validStatuses_def logger_def digit_char_def Let_def world_defs)

text \<open>
  Claim C4, amended. \<^verbatim>\<open>create\<close> throws a \<^verbatim>\<open>BadRequestException\<close> that names the first
  of \<open>nome\<close>, \<open>description\<close>, \<open>image\<close>, \<open>userId\<close> that is missing or empty; with all four
  present it throws one that names the status when the status is a non-empty string
  other than the four values; on every other input (no status, the empty string, or one
  of the four values), when the store accepts the document, it appends a new game with
  the dto's fields to the collection and returns it.
\<close>

theorem create_validates:
  "(\<not> truthy (d_nome dto) \<longrightarrow>
      fst (create dto w) = Inl (BadRequestException ''Missing required field: nome''))
   \<and> (truthy (d_nome dto) \<and> \<not> truthy (d_description dto) \<longrightarrow>
      fst (create dto w) = Inl (BadRequestException ''Missing required field: description''))
   \<and> (truthy (d_nome dto) \<and> truthy (d_description dto) \<and> \<not> truthy (d_image dto) \<longrightarrow>
      fst (create dto w) = Inl (BadRequestException ''Missing required field: image''))
   \<and> (truthy (d_nome dto) \<and> truthy (d_description dto) \<and> truthy (d_image dto)
       \<and> \<not> truthy (d_userId dto) \<longrightarrow>
      fst (create dto w) = Inl (BadRequestException ''Missing required field: userId''))
   \<and> (truthy (d_nome dto) \<and> truthy (d_description dto) \<and> truthy (d_image dto)
       \<and> truthy (d_userId dto) \<and> d_status dto = Some s \<and> s \<noteq> []
       \<and> s \<notin> {''Pendente'', ''Progresso'', ''Pausado'', ''Completo''} \<longrightarrow>
      fst (create dto w) = Inl (BadRequestException (''Invalid status: '' @ s)))
   \<and> (truthy (d_nome dto) \<and> truthy (d_description dto) \<and> truthy (d_image dto)
       \<and> truthy (d_userId dto)
       \<and> (d_status dto = None \<or> d_status dto = Some []
            \<or> (\<exists>s \<in> {''Pendente'', ''Progresso'', ''Pausado'', ''Completo''}. d_status dto = Some s))
       \<and> game_fault w = None \<longrightarrow>
      (\<exists>g. fst (create dto w) = Inr g
         \<and> games (snd (create dto w)) = games w @ [g]
         \<and> d_nome dto = Some (g_nome g) \<and> d_description dto = Some (g_description g)
         \<and> d_image dto = Some (g_image g) \<and> d_userId dto = Some (g_userId g)
         \<and> g_status g = (case d_status dto of None \<Rightarrow> default_status w | Some s \<Rightarrow> s)
         \<and> g_updatedBy g = d_updatedBy dto))"
proof (intro conjI impI)
  assume "\<not> truthy (d_nome dto)"
  then show "fst (create dto w) = Inl (BadRequestException ''Missing required field: nome'')"
    by (simp add: create_def first_missing Let_def)
next
  assume "truthy (d_nome dto) \<and> \<not> truthy (d_description dto)"
  then show "fst (create dto w) = Inl (BadRequestException ''Missing required field: description'')"
    by (simp add: create_def first_missing Let_def)
next
  assume "truthy (d_nome dto) \<and> truthy (d_description dto) \<and> \<not> truthy (d_image dto)"
  then show "fst (create dto w) = Inl (BadRequestException ''Missing required field: image'')"
    by (simp add: create_def first_missing Let_def)
next
  assume "truthy (d_nome dto) \<and> truthy (d_description dto) \<and> truthy (d_image dto)
       \<and> \<not> truthy (d_userId dto)"
  then show "fst (create dto w) = Inl (BadRequestException ''Missing required field: userId'')"
    by (simp add: create_def first_missing Let_def)
next
  assume a: "truthy (d_nome dto) \<and> truthy (d_description dto) \<and> truthy (d_image dto)
       \<and> truthy (d_userId dto) \<and> d_status dto = Some s \<and> s \<noteq> []
       \<and> s \<notin> {''Pendente'', ''Progresso'', ''Pausado'', ''Completo''}"
  then have "truthy (d_status dto) \<and> \<not> includes_js validStatuses (d_status dto)"
    by (simp add: status_check)
  with a show "fst (create dto w) = Inl (BadRequestException (''Invalid status: '' @ s))"
    by (simp add: create_def first_missing Let_def String_js_def)
next
  assume a: "truthy (d_nome dto) \<and> truthy (d_description dto) \<and> truthy (d_image dto)
       \<and> truthy (d_userId dto)
       \<and> (d_status dto = None \<or> d_status dto = Some []
            \<or> (\<exists>s \<in> {''Pendente'', ''Progresso'', ''Pausado'', ''Completo''}. d_status dto = Some s))
       \<and> game_fault w = None"
  then obtain n d im u where f: "d_nome dto = Some n" "n \<noteq> []" "d_description dto = Some d"
    "d \<noteq> []" "d_image dto = Some im" "im \<noteq> []" "d_userId dto = Some u" "u \<noteq> []"
    by (auto simp: truthy_Some)
  from a have ok: "\<not> (truthy (d_status dto) \<and> \<not> includes_js validStatuses (d_status dto))"
    by (auto simp: status_check)
  from a have nofault: "game_fault w = None" by simp
  show "\<exists>g. fst (create dto w) = Inr g
         \<and> games (snd (create dto w)) = games w @ [g]
         \<and> d_nome dto = Some (g_nome g) \<and> d_description dto = Some (g_description g)
         \<and> d_image dto = Some (g_image g) \<and> d_userId dto = Some (g_userId g)
         \<and> g_status g = (case d_status dto of None \<Rightarrow> default_status w | Some s \<Rightarrow> s)
         \<and> g_updatedBy g = d_updatedBy dto"
    by (simp add: create_saves [OF f ok nofault] f Let_def)
qed

theorem create_validates_witness:
  "\<not> truthy (d_nome dto_none)
   \<and> fst (create dto_none world1) = Inl (BadRequestException ''Missing required field: nome'')
   \<and> truthy (d_nome dto_hades) \<and> truthy (d_description dto_hades)
   \<and> \<not> truthy (d_image (dto_hades\<lparr>d_image := Some []\<rparr>))
   \<and> fst (create (dto_hades\<lparr>d_image := Some []\<rparr>) world1) =
       Inl (BadRequestException ''Missing required field: image'')
   \<and> truthy (d_image dto_hades) \<and> truthy (d_userId dto_hades)
   \<and> fst (create (dto_hades\<lparr>d_status := Some ''Bogus''\<rparr>) world1) =
       Inl (BadRequestException ''Invalid status: Bogus'')
   \<and> d_status dto_hades = None \<and> game_fault world1 = None
   \<and> (\<exists>g. fst (create dto_hades world1) = Inr g \<and> g_nome g = ''Hades''
         \<and> g_status g = ''Pendente'' \<and> games (snd (create dto_hades world1)) = [g1, g])"
  using create_validates [where dto = dto_none and w = world1]
    create_validates [where dto = "dto_hades\<lparr>d_image := Some []\<rparr>" and w = world1]
    create_validates [where dto = "dto_hades\<lparr>d_status := Some ''Bogus''\<rparr>" and w = world1
      and s = "''Bogus''"]
    create_validates [where dto = dto_hades and w = world1]
  by (auto simp add: truthy_def dto_none_def dto_hades_def world0_def world1_def)

subsection \<open>The status check of create and update\<close>

text \<open>
  Claim C10. In \<^verbatim>\<open>create\<close> (once the required fields are present) and in \<^verbatim>\<open>update\<close>,
  the "Invalid status" exception is thrown exactly when the dto's status is a non-empty
  string that is none of the four values. The empty string is not checked: when the
  store answers, \<^verbatim>\<open>create\<close> stores a new game whose status is the empty string, and
  \<^verbatim>\<open>update\<close> of an existing game sets its status to the empty string.
\<close>

theorem status_check_only_truthy:
  "(truthy (d_nome dto) \<and> truthy (d_description dto) \<and> truthy (d_image dto)
      \<and> truthy (d_userId dto) \<longrightarrow>
      ((\<exists>m. fst (create dto w) = Inl (BadRequestException (''Invalid status: '' @ m))) \<longleftrightarrow>
       (\<exists>s. d_status dto = Some s \<and> s \<noteq> []
          \<and> s \<notin> {''Pendente'', ''Progresso'', ''Pausado'', ''Completo''})))
   \<and> ((\<exists>m. fst (update i dto w) = Inl (BadRequestException (''Invalid status: '' @ m))) \<longleftrightarrow>
       (\<exists>s. d_status dto = Some s \<and> s \<noteq> []
          \<and> s \<notin> {''Pendente'', ''Progresso'', ''Pausado'', ''Completo''}))
   \<and> (truthy (d_nome dto) \<and> truthy (d_description dto) \<and> truthy (d_image dto)
      \<and> truthy (d_userId dto) \<and> d_status dto = Some [] \<and> game_fault w = None \<longrightarrow>
      (\<exists>g. fst (create dto w) = Inr g \<and> g_status g = []
         \<and> games (snd (create dto w)) = games w @ [g]))
   \<and> (d_status dto = Some [] \<and> game_fault w = None \<and> games w = pre @ g0 # post
      \<and> g_id g0 = i \<and> (\<forall>x\<in>set pre. g_id x \<noteq> i) \<longrightarrow>
      (\<exists>g. fst (update i dto w) = Inr g \<and> g_status g = []
         \<and> games (snd (update i dto w)) = pre @ g # post))"
proof (intro conjI impI)
  assume req: "truthy (d_nome dto) \<and> truthy (d_description dto) \<and> truthy (d_image dto)
      \<and> truthy (d_userId dto)"
  show "(\<exists>m. fst (create dto w) = Inl (BadRequestException (''Invalid status: '' @ m))) \<longleftrightarrow>
       (\<exists>s. d_status dto = Some s \<and> s \<noteq> []
          \<and> s \<notin> {''Pendente'', ''Progresso'', ''Pausado'', ''Completo''})"
  proof (cases "truthy (d_status dto) \<and> \<not> includes_js validStatuses (d_status dto)")
    case True
    with req have "fst (create dto w) =
        Inl (BadRequestException (''Invalid status: '' @ String_js (d_status dto)))"
      by (simp add: create_def first_missing Let_def)
    with True show ?thesis
      unfolding status_check by blast
  next
    case False
    then have ok: "(truthy (d_status dto) \<and> \<not> includes_js validStatuses (d_status dto)) = False"
      by simp
    have "fst (create dto w) \<noteq> Inl (BadRequestException (''Invalid status: '' @ m))" for m
      using req
      by (simp add: create_def first_missing Let_def ok split: prod.splits sum.splits)
    with False show ?thesis
      unfolding status_check by blast
  qed
next
  show "(\<exists>m. fst (update i dto w) = Inl (BadRequestException (''Invalid status: '' @ m))) \<longleftrightarrow>
       (\<exists>s. d_status dto = Some s \<and> s \<noteq> []
          \<and> s \<notin> {''Pendente'', ''Progresso'', ''Pausado'', ''Completo''})"
  proof (cases "truthy (d_status dto) \<and> \<not> includes_js validStatuses (d_status dto)")
    case True
    then have "fst (update i dto w) =
        Inl (BadRequestException (''Invalid status: '' @ String_js (d_status dto)))"
      by (simp add: update_def Let_def)
    with True show ?thesis
      unfolding status_check by blast
  next
    case False
    then have ok: "(truthy (d_status dto) \<and> \<not> includes_js validStatuses (d_status dto)) = False"
      by simp
    have "fst (update i dto w) \<noteq> Inl (BadRequestException (''Invalid status: '' @ m))" for m
      by (simp add: update_def Let_def ok split: prod.splits sum.splits option.splits)
    with False show ?thesis
      unfolding status_check by blast
  qed
next
  assume a: "truthy (d_nome dto) \<and> truthy (d_description dto) \<and> truthy (d_image dto)
      \<and> truthy (d_userId dto) \<and> d_status dto = Some [] \<and> game_fault w = None"
  then obtain n d im u where f: "d_nome dto = Some n" "n \<noteq> []" "d_description dto = Some d"
    "d \<noteq> []" "d_image dto = Some im" "im \<noteq> []" "d_userId dto = Some u" "u \<noteq> []"
    by (auto simp: truthy_Some)
  from a have ok: "\<not> (truthy (d_status dto) \<and> \<not> includes_js validStatuses (d_status dto))"
    by (simp add: truthy_def)
  from a have nofault: "game_fault w = None" and st: "d_status dto = Some []" by simp_all
  show "\<exists>g. fst (create dto w) = Inr g \<and> g_status g = []
         \<and> games (snd (create dto w)) = games w @ [g]"
    by (simp add: create_saves [OF f ok nofault] st Let_def)
next
  assume a: "d_status dto = Some [] \<and> game_fault w = None \<and> games w = pre @ g0 # post
      \<and> g_id g0 = i \<and> (\<forall>x\<in>set pre. g_id x \<noteq> i)"
  then have ok: "(truthy (d_status dto) \<and> \<not> includes_js validStatuses (d_status dto)) = False"
    by (simp add: truthy_def)
  from a have f: "find (\<lambda>g. g_id g = i) (games w) = Some g0"
    and r: "replace_first (\<lambda>g. g_id g = i) (apply_update dto (now w)) (games w)
        = pre @ apply_update dto (now w) g0 # post"
    by (simp_all add: find_first_split)
  from a have nofault: "game_fault w = None" by simp
  have "fst (update i dto w) = Inr (apply_update dto (now w) g0)"
    and "games (snd (update i dto w)) = pre @ apply_update dto (now w) g0 # post"
    using nofault f r by (simp_all add: update_def game_findByIdAndUpdate_def Let_def ok)
  moreover from a have "g_status (apply_update dto (now w) g0) = []"
    by (simp add: apply_update_def)
  ultimately show "\<exists>g. fst (update i dto w) = Inr g \<and> g_status g = []
         \<and> games (snd (update i dto w)) = pre @ g # post"
    by simp
qed

theorem status_check_only_truthy_witness:
  "truthy (d_nome dto_hades) \<and> truthy (d_description dto_hades) \<and> truthy (d_image dto_hades)
   \<and> truthy (d_userId dto_hades)
   \<and> fst (create (dto_hades\<lparr>d_status := Some ''Bogus''\<rparr>) world3) =
       Inl (BadRequestException ''Invalid status: Bogus'')
   \<and> fst (update ''g2'' (dto_none\<lparr>d_status := Some ''Bogus''\<rparr>) world3) =
       Inl (BadRequestException ''Invalid status: Bogus'')
   \<and> game_fault world3 = None \<and> games world3 = [g1] @ g2 # [g4] \<and> g_id g2 = ''g2''
   \<and> g_id g1 \<noteq> ''g2''
   \<and> (\<exists>g. fst (create (dto_hades\<lparr>d_status := Some []\<rparr>) world3) = Inr g \<and> g_status g = []
         \<and> games (snd (create (dto_hades\<lparr>d_status := Some []\<rparr>) world3)) = [g1, g2, g4, g])
   \<and> (\<exists>g. fst (update ''g2'' (dto_none\<lparr>d_status := Some []\<rparr>) world3) = Inr g
         \<and> g_status g = []
         \<and> games (snd (update ''g2'' (dto_none\<lparr>d_status := Some []\<rparr>) world3)) = [g1, g, g4])"
proof -
  have c: "fst (create (dto_hades\<lparr>d_status := Some ''Bogus''\<rparr>) world3) =
       Inl (BadRequestException ''Invalid status: Bogus'')"
    by (simp add: create_def requiredFields_def dto_get_def truthy_def includes_js_def
        validStatuses_def String_js_def dto_hades_def Let_def)
  have u: "fst (update ''g2'' (dto_none\<lparr>d_status := Some ''Bogus''\<rparr>) world3) =
       Inl (BadRequestException ''Invalid status: Bogus'')"
    by (simp add: update_def truthy_def includes_js_def validStatuses_def String_js_def
        dto_none_def Let_def)
  have h: "game_fault world3 = None" "games world3 = [g1] @ g2 # [g4]" "g_id g2 = ''g2''"
    "g_id g1 \<noteq> ''g2''"
    by (simp_all add: world_defs)
  have t: "truthy (d_nome dto_hades)" "truthy (d_description dto_hades)"
    "truthy (d_image dto_hades)" "truthy (d_userId dto_hades)"
    by (simp_all add: truthy_def dto_hades_def)
  from status_check_only_truthy [where dto = "dto_hades\<lparr>d_status := Some []\<rparr>" and w = world3]
    status_check_only_truthy [where dto = "dto_none\<lparr>d_status := Some []\<rparr>" and w = world3
      and i = "''g2''" and pre = "[g1]" and ?g0.0 = g2 and post = "[g4]"]
    c u h t
  show ?thesis
    by (auto simp add: truthy_def dto_none_def dto_hades_def)
qed

end
